theory Spec2Isabelle
  imports Main
begin

section \<open>The terminal window (curses collaborator)\<close>

text \<open>
  The dashboard of \<^verbatim>\<open>foreground.py\<close> draws on a curses window, \<^verbatim>\<open>self.screen\<close>.
  The window belongs to the curses library, not to the program; it is modelled here by
  what the documentation of Python's \<^verbatim>\<open>curses\<close> module says of the calls the program
  makes:
  \<^item> the window has \<open>maxy\<close> rows and \<open>maxx\<close> columns, a cursor, and the cells written so
    far (kept as a log, oldest first, of row, column, glyph and attribute);
  \<^item> writing outside the window raises \<^verbatim>\<open>curses.error\<close>: moving the cursor to a row or
    a column that the window does not have fails;
  \<^item> writing a glyph puts it at the cursor and advances the cursor, wrapping to the next
    row at the right margin; writing into the lower right corner raises after the glyph is
    stored, since the cursor cannot advance (the program never enables scrolling);
  \<^item> writing a string writes its glyphs one by one and stops at the first failure.
  Every glyph is taken to fill one cell, and a \<open>char\<close> stands for one character of a
  Python string.
\<close>

datatype glyph = Chr char | Uni nat | ACS_HLINE | ACS_VLINE | ACS_PLUS

datatype color = COLOR_DEFAULT | COLOR_GREEN | COLOR_BLUE | COLOR_YELLOW | COLOR_RED

text \<open>An attribute is a colour pair together with the bold flag (\<^verbatim>\<open>curses.A_BOLD\<close>).\<close>

type_synonym attr = "color \<times> bool"

datatype exn = curses_error | IndexError

record screen =
  maxy :: int
  maxx :: int
  cur_y :: int
  cur_x :: int
  cells :: "(int \<times> int \<times> glyph \<times> attr) list"

text \<open>A call either returns or raises; in both cases the state it leaves is kept.\<close>

type_synonym 's action = "'s \<Rightarrow> exn option \<times> 's"

definition A_NORMAL :: attr where
  "A_NORMAL = (COLOR_DEFAULT, False)"

definition text_glyphs :: "string \<Rightarrow> glyph list" where
  "text_glyphs cs = map Chr cs"

definition getmaxyx :: "screen \<Rightarrow> int \<times> int" where
  "getmaxyx s = (maxy s, maxx s)"

definition in_window :: "screen \<Rightarrow> int \<Rightarrow> int \<Rightarrow> bool" where
  "in_window s y x = (0 \<le> y \<and> y < maxy s \<and> 0 \<le> x \<and> x < maxx s)"

definition wmove :: "int \<Rightarrow> int \<Rightarrow> screen action" where
  "wmove y x s =
     (if in_window s y x then (None, s\<lparr>cur_y := y, cur_x := x\<rparr>)
      else (Some curses_error, s))"

definition waddch :: "glyph \<Rightarrow> attr \<Rightarrow> screen action" where
  "waddch g a s =
     (if \<not> in_window s (cur_y s) (cur_x s) then (Some curses_error, s)
      else
        (let s' = s\<lparr>cells := cells s @ [(cur_y s, cur_x s, g, a)]\<rparr> in
         if cur_x s + 1 < maxx s then (None, s'\<lparr>cur_x := cur_x s + 1\<rparr>)
         else if cur_y s + 1 < maxy s then (None, s'\<lparr>cur_y := cur_y s + 1, cur_x := 0\<rparr>)
         else (Some curses_error, s')))"

fun waddstr :: "glyph list \<Rightarrow> attr \<Rightarrow> screen action" where
  "waddstr [] a s = (None, s)"
| "waddstr (g # gs) a s =
     (case waddch g a s of
        (None, s') \<Rightarrow> waddstr gs a s'
      | (Some e, s') \<Rightarrow> (Some e, s'))"

text \<open>\<^verbatim>\<open>screen.addch(y, x, ch)\<close>\<close>

definition addch :: "int \<Rightarrow> int \<Rightarrow> glyph \<Rightarrow> screen action" where
  "addch y x g s =
     (case wmove y x s of
        (None, s') \<Rightarrow> waddch g A_NORMAL s'
      | (Some e, s') \<Rightarrow> (Some e, s'))"

text \<open>\<^verbatim>\<open>screen.addstr(y, x, str, attr)\<close>\<close>

definition addstr_at :: "int \<Rightarrow> int \<Rightarrow> glyph list \<Rightarrow> attr \<Rightarrow> screen action" where
  "addstr_at y x gs a s =
     (case wmove y x s of
        (None, s') \<Rightarrow> waddstr gs a s'
      | (Some e, s') \<Rightarrow> (Some e, s'))"

text \<open>\<^verbatim>\<open>screen.addstr(str, attr)\<close>: at the cursor.\<close>

definition addstr :: "glyph list \<Rightarrow> attr \<Rightarrow> screen action" where
  "addstr gs a s = waddstr gs a s"

text \<open>\<^verbatim>\<open>screen.clear()\<close> blanks every cell and homes the cursor.\<close>

definition clear :: "screen \<Rightarrow> screen" where
  "clear s = s\<lparr>cur_y := 0, cur_x := 0, cells := []\<rparr>"

text \<open>\<^verbatim>\<open>screen.refresh()\<close> sends the window to the terminal; the window is unchanged.\<close>

definition refresh :: "screen action" where
  "refresh s = (None, s)"

section \<open>Sequencing\<close>

definition skip :: "'s action" where
  "skip s = (None, s)"

definition seq :: "'s action \<Rightarrow> 's action \<Rightarrow> 's action" where
  "seq f g s = (case f s of (None, s') \<Rightarrow> g s' | (Some e, s') \<Rightarrow> (Some e, s'))"

fun for_each :: "'a list \<Rightarrow> ('a \<Rightarrow> 's action) \<Rightarrow> 's action" where
  "for_each [] body s = (None, s)"
| "for_each (i # is) body s =
     (case body i s of
        (None, s') \<Rightarrow> for_each is body s'
      | (Some e, s') \<Rightarrow> (Some e, s'))"

section \<open>Python lists and strings\<close>

text \<open>\<^verbatim>\<open>range(n)\<close>\<close>

definition py_range :: "int \<Rightarrow> int list" where
  "py_range n = map int [0..<nat n]"

text \<open>\<^verbatim>\<open>xs[:n]\<close>: a negative bound counts from the end.\<close>

definition slice_to :: "int \<Rightarrow> 'a list \<Rightarrow> 'a list" where
  "slice_to n xs =
     (if 0 \<le> n then take (nat n) xs else take (nat (int (length xs) + n)) xs)"

text \<open>\<^verbatim>\<open>s.split('\n')\<close>\<close>

fun split_nl :: "string \<Rightarrow> string list" where
  "split_nl [] = [[]]"
| "split_nl (c # cs) =
     (if c = CHR 0x0A then [] # split_nl cs
      else (case split_nl cs of
              l # ls \<Rightarrow> (c # l) # ls
            | [] \<Rightarrow> [[c]]))"

section \<open>The monitor\<close>

text \<open>
  A metric's record is the dictionary \<^verbatim>\<open>{"status": ..., "data": ...}\<close>: the status is a
  string, the data is \<^verbatim>\<open>None\<close> or the probe's standard output.
\<close>

record metric_record =
  status :: string
  data :: "string option"

record monitor =
  screen :: screen
  spinner_idx :: nat
  bandwidth_data :: metric_record
  latency_data :: metric_record
  stability_data :: metric_record
  routing_data :: metric_record
  protocol_data :: metric_record

definition GREEN :: attr where "GREEN = (COLOR_GREEN, False)"
definition BLUE :: attr where "BLUE = (COLOR_BLUE, False)"
definition YELLOW :: attr where "YELLOW = (COLOR_YELLOW, False)"
definition RED :: attr where "RED = (COLOR_RED, False)"

text \<open>\<^verbatim>\<open>self.GREEN | curses.A_BOLD\<close>\<close>

definition GREEN_BOLD :: attr where "GREEN_BOLD = (COLOR_GREEN, True)"

text \<open>The ten Braille frames of the spinner, by code point.\<close>

definition spinner :: "glyph list" where
  "spinner = [Uni 0x280B, Uni 0x2819, Uni 0x2839, Uni 0x2838, Uni 0x283C,
              Uni 0x2834, Uni 0x2826, Uni 0x2827, Uni 0x2807, Uni 0x280F]"

definition initial_record :: metric_record where
  "initial_record = \<lparr>status = ''Initializing...'', data = None\<rparr>"

text \<open>
  \<^verbatim>\<open>__init__\<close>, on a window of the given size. The flag \<^verbatim>\<open>self.running\<close> is not a field
  here: it is set once, in \<^verbatim>\<open>__init__\<close>, and cleared once, by \<^verbatim>\<open>run\<close>; the collectors
  below read it as of the time at which it is cleared.
\<close>

definition init_monitor :: "int \<Rightarrow> int \<Rightarrow> monitor" where
  "init_monitor h w =
     \<lparr>screen = \<lparr>maxy = h, maxx = w, cur_y = 0, cur_x = 0, cells = []\<rparr>,
      spinner_idx = 0,
      bandwidth_data = initial_record,
      latency_data = initial_record,
      stability_data = initial_record,
      routing_data = initial_record,
      protocol_data = initial_record\<rparr>"

text \<open>A call on \<^verbatim>\<open>self.screen\<close>.\<close>

definition on_screen :: "screen action \<Rightarrow> monitor action" where
  "on_screen f m = (case f (screen m) of (r, s') \<Rightarrow> (r, m\<lparr>screen := s'\<rparr>))"

text \<open>
  \<^verbatim>\<open>get_spinner\<close>: the frame at the index, and the index moved on. Indexing outside the
  list raises \<^verbatim>\<open>IndexError\<close> before the index is touched.
\<close>

definition get_spinner :: "monitor \<Rightarrow> (exn + glyph) \<times> monitor" where
  "get_spinner m =
     (if spinner_idx m < length spinner
      then (Inr (spinner ! spinner_idx m),
            m\<lparr>spinner_idx := (spinner_idx m + 1) mod length spinner\<rparr>)
      else (Inl IndexError, m))"

definition draw_borders :: "monitor action" where
  "draw_borders m =
     (let (max_y, max_x) = getmaxyx (screen m);
          mid_y = max_y div 2;
          mid_x = max_x div 2
      in seq (for_each (py_range max_x) (\<lambda>x. on_screen (addch mid_y x ACS_HLINE)))
        (seq (for_each (py_range max_y) (\<lambda>y. on_screen (addch y mid_x ACS_VLINE)))
             (on_screen (addch mid_y mid_x ACS_PLUS))) m)"

text \<open>The body of \<^verbatim>\<open>draw_panel\<close>: the loop over the lines of the data.\<close>

definition draw_lines :: "string \<Rightarrow> int \<Rightarrow> int \<Rightarrow> int \<Rightarrow> int \<Rightarrow> monitor action" where
  "draw_lines txt y x height width =
     for_each (enumerate 0 (slice_to (height - 2) (split_nl txt)))
       (\<lambda>(i, line).
          if y + int i + 1 < height
          then on_screen (addstr_at (y + int i + 1) x
                 (text_glyphs (slice_to (width - 2) line)) A_NORMAL)
          else skip)"

definition draw_panel ::
  "string \<Rightarrow> metric_record \<Rightarrow> int \<Rightarrow> int \<Rightarrow> int \<Rightarrow> int \<Rightarrow> monitor action" where
  "draw_panel title d y x height width m =
     (case (if status d = ''Updating...'' then get_spinner m
            else (Inr (Chr CHR '' ''), m)) of
        (Inl e, m1) \<Rightarrow> (Some e, m1)
      | (Inr spinner_ch, m1) \<Rightarrow>
          (let status_color = (if status d = ''OK'' then GREEN else RED)
           in seq (on_screen (addstr_at y x
                     (text_glyphs (''=== '' @ title @ '' === '')) BLUE))
             (seq (on_screen (addstr [spinner_ch] YELLOW))
             (seq (on_screen (addstr (text_glyphs (''['' @ status d @ '']'')) status_color))
                  (case data d of
                     None \<Rightarrow> skip
                   | Some txt \<Rightarrow>
                       if txt = [] then skip
                       else draw_lines txt y x height width))) m1))"

text \<open>
  \<^verbatim>\<open>draw_screen\<close>. The argument \<open>now\<close> is what
  \<^verbatim>\<open>datetime.now().strftime("%Y-%m-%d %H:%M:%S")\<close> returns.
\<close>

definition draw_screen :: "string \<Rightarrow> monitor action" where
  "draw_screen now m0 =
     (let m = m0\<lparr>screen := clear (screen m0)\<rparr>;
          (max_y, max_x) = getmaxyx (screen m);
          mid_y = max_y div 2;
          mid_x = max_x div 2;
          title = ''Network Performance Monitor''
      in seq draw_borders
        (seq (on_screen (addstr_at 0 ((max_x - int (length title)) div 2)
                (text_glyphs title) GREEN_BOLD))
        (seq (\<lambda>m. draw_panel ''Bandwidth'' (bandwidth_data m) 2 1 (mid_y - 1) (mid_x - 1) m)
        (seq (\<lambda>m. draw_panel ''Latency'' (latency_data m) 2 (mid_x + 1) (mid_y - 1) (mid_x - 1) m)
        (seq (\<lambda>m. draw_panel ''Stability'' (stability_data m) (mid_y + 1) 1 (mid_y - 1) (mid_x - 1) m)
        (seq (\<lambda>m. draw_panel ''Routing'' (routing_data m) (mid_y + 1) (mid_x + 1) (mid_y - 1) (mid_x - 1) m)
        (seq (on_screen (addstr_at (max_y - 1) 1 (text_glyphs (''Last update: '' @ now)) A_NORMAL))
             (on_screen refresh))))))) m)"

section \<open>The collectors\<close>

text \<open>
  What \<^verbatim>\<open>subprocess.run(..., capture_output=True, text=True)\<close> does: it returns a
  completed process, of which the program reads the standard output (whatever the exit
  code), or it raises an exception \<open>e\<close>, of which the program reads \<^verbatim>\<open>str(e)\<close>.
\<close>

datatype probe_result = Completed string | Raised string

text \<open>
  One pass through the body of the loop of \<^verbatim>\<open>update_bandwidth\<close>, up to the sleep: the
  monitor after each assignment, in order. The renderer runs in another thread and reads
  the monitor between any two of them.
\<close>

definition update_bandwidth_pass :: "probe_result \<Rightarrow> monitor \<Rightarrow> monitor list" where
  "update_bandwidth_pass r m =
     (let m1 = m\<lparr>bandwidth_data := (bandwidth_data m)\<lparr>status := ''Updating...''\<rparr>\<rparr>
      in case r of
           Completed out \<Rightarrow>
             (let m2 = m1\<lparr>bandwidth_data := (bandwidth_data m1)\<lparr>data := Some out\<rparr>\<rparr>;
                  m3 = m2\<lparr>bandwidth_data := (bandwidth_data m2)\<lparr>status := ''OK''\<rparr>\<rparr>
              in [m1, m2, m3])
         | Raised e \<Rightarrow>
             [m1, m1\<lparr>bandwidth_data := (bandwidth_data m1)\<lparr>status := ''Error: '' @ e\<rparr>\<rparr>])"

definition update_latency_pass :: "probe_result \<Rightarrow> monitor \<Rightarrow> monitor list" where
  "update_latency_pass r m =
     (let m1 = m\<lparr>latency_data := (latency_data m)\<lparr>status := ''Updating...''\<rparr>\<rparr>
      in case r of
           Completed out \<Rightarrow>
             (let m2 = m1\<lparr>latency_data := (latency_data m1)\<lparr>data := Some out\<rparr>\<rparr>;
                  m3 = m2\<lparr>latency_data := (latency_data m2)\<lparr>status := ''OK''\<rparr>\<rparr>
              in [m1, m2, m3])
         | Raised e \<Rightarrow>
             [m1, m1\<lparr>latency_data := (latency_data m1)\<lparr>status := ''Error: '' @ e\<rparr>\<rparr>])"

text \<open>
  The collector threads, on a clock that counts seconds. The main thread clears
  \<^verbatim>\<open>self.running\<close> at \<open>t_stop\<close>, so the flag read at time \<open>t\<close> is \<open>t < t_stop\<close>. The probe
  started at time \<open>t\<close> gives its result after \<open>snd (probe t)\<close> seconds, and
  \<^verbatim>\<open>time.sleep(n)\<close> returns \<open>n\<close> seconds later. The thread returns when it reads the flag
  cleared: the result is that time and the monitor as the thread leaves it.
\<close>

function update_bandwidth ::
  "nat \<Rightarrow> (nat \<Rightarrow> probe_result \<times> nat) \<Rightarrow> nat \<Rightarrow> monitor \<Rightarrow> nat \<times> monitor" where
  "update_bandwidth t_stop probe t m =
     (if t < t_stop
      then update_bandwidth t_stop probe (t + snd (probe t) + 300)
             (last (update_bandwidth_pass (fst (probe t)) m))
      else (t, m))"
  by pat_completeness auto
termination
  by (relation "measure (\<lambda>(t_stop, probe, t, m). t_stop - t)") auto

function update_latency ::
  "nat \<Rightarrow> (nat \<Rightarrow> probe_result \<times> nat) \<Rightarrow> nat \<Rightarrow> monitor \<Rightarrow> nat \<times> monitor" where
  "update_latency t_stop probe t m =
     (if t < t_stop
      then update_latency t_stop probe (t + snd (probe t) + 5)
             (last (update_latency_pass (fst (probe t)) m))
      else (t, m))"
  by pat_completeness auto
termination
  by (relation "measure (\<lambda>(t_stop, probe, t, m). t_stop - t)") auto

text \<open>The equations of the two loops are unfolded by hand, one pass at a time.\<close>

declare update_bandwidth.simps [simp del] update_latency.simps [simp del]

text \<open>
  The interrupt branch of \<^verbatim>\<open>run\<close>: the flag is cleared at \<open>t_stop\<close> and the two threads,
  started at time 0 by \<^verbatim>\<open>__init__\<close>, are joined in turn. The result is the time at which
  the last join returns.
\<close>

definition run_interrupted ::
  "nat \<Rightarrow> (nat \<Rightarrow> probe_result \<times> nat) \<Rightarrow> (nat \<Rightarrow> probe_result \<times> nat) \<Rightarrow> monitor \<Rightarrow> nat" where
  "run_interrupted t_stop speedtest ping m =
     (let t1 = max t_stop (fst (update_bandwidth t_stop speedtest 0 m));
          t2 = max t1 (fst (update_latency t_stop ping 0 m))
      in t2)"

section \<open>Notions used in the statements\<close>

text \<open>An action keeps a quantity \<open>p\<close> of the state when it leaves it as it found it,
  whether it returns or raises.\<close>

definition keeps :: "('s \<Rightarrow> 'a) \<Rightarrow> 's action \<Rightarrow> bool" where
  "keeps p f = (\<forall>s. p (snd (f s)) = p s)"

text \<open>The store of metric records: the five dictionaries of the monitor.\<close>

definition metric_records ::
  "monitor \<Rightarrow> metric_record \<times> metric_record \<times> metric_record \<times> metric_record \<times> metric_record" where
  "metric_records m =
     (bandwidth_data m, latency_data m, stability_data m, routing_data m, protocol_data m)"

text \<open>
  The rectangles (row, column, height, width) that \<^verbatim>\<open>draw_screen\<close> hands to
  \<^verbatim>\<open>draw_panel\<close>, by the size of the terminal, and the cells of a rectangle and of the
  terminal.
\<close>

type_synonym rect = "int \<times> int \<times> int \<times> int"

definition bandwidth_rect :: "int \<Rightarrow> int \<Rightarrow> rect" where
  "bandwidth_rect max_y max_x = (2, 1, max_y div 2 - 1, max_x div 2 - 1)"

definition latency_rect :: "int \<Rightarrow> int \<Rightarrow> rect" where
  "latency_rect max_y max_x = (2, max_x div 2 + 1, max_y div 2 - 1, max_x div 2 - 1)"

definition stability_rect :: "int \<Rightarrow> int \<Rightarrow> rect" where
  "stability_rect max_y max_x = (max_y div 2 + 1, 1, max_y div 2 - 1, max_x div 2 - 1)"

definition routing_rect :: "int \<Rightarrow> int \<Rightarrow> rect" where
  "routing_rect max_y max_x =
     (max_y div 2 + 1, max_x div 2 + 1, max_y div 2 - 1, max_x div 2 - 1)"

definition draw_panel_in :: "string \<Rightarrow> metric_record \<Rightarrow> rect \<Rightarrow> monitor action" where
  "draw_panel_in title d r = (case r of (y, x, height, width) \<Rightarrow> draw_panel title d y x height width)"

definition rect_cells :: "rect \<Rightarrow> (int \<times> int) set" where
  "rect_cells r = (case r of (y, x, height, width) \<Rightarrow>
     {(row, col). y \<le> row \<and> row < y + height \<and> x \<le> col \<and> col < x + width})"

definition window_cells :: "int \<Rightarrow> int \<Rightarrow> (int \<times> int) set" where
  "window_cells h w = {(row, col). 0 \<le> row \<and> row < h \<and> 0 \<le> col \<and> col < w}"

text \<open>
  The cells that a string fills on one row, from a column on; a window after further
  drawing (same size, the old cells and then new ones, all inside the window); and an
  action of the monitor that only draws.
\<close>

definition row_cells :: "int \<Rightarrow> int \<Rightarrow> glyph list \<Rightarrow> attr \<Rightarrow> (int \<times> int \<times> glyph \<times> attr) list" where
  "row_cells y x gs a = map (\<lambda>(k, g). (y, x + int k, g, a)) (enumerate 0 gs)"





section \<open>What the renderer leaves alone\<close>

lemma keeps_skip: "keeps p skip"
  by (simp add: keeps_def skip_def)

lemma keeps_seq: "keeps p f \<Longrightarrow> keeps p g \<Longrightarrow> keeps p (seq f g)"
  by (auto simp: keeps_def seq_def split: prod.splits option.splits) (metis snd_conv)+

lemma keeps_for_each: "(\<And>i. keeps p (body i)) \<Longrightarrow> keeps p (for_each is body)"
proof (induction "is")
  case Nil
  show ?case by (simp add: keeps_def)
next
  case (Cons i "is")
  have a: "keeps p (body i)" by (rule Cons.prems)
  have b: "keeps p (for_each is body)" by (rule Cons.IH) (rule Cons.prems)
  show ?case
    unfolding keeps_def
  proof
    fix s
    obtain r s' where bs: "body i s = (r, s')" by (cases "body i s")
    have ps': "p s' = p s" using a bs by (metis keeps_def snd_conv)
    show "p (snd (for_each (i # is) body s)) = p s"
    proof (cases r)
      case None
      then show ?thesis using bs ps' b by (simp add: keeps_def)
    next
      case (Some e)
      then show ?thesis using bs ps' by simp
    qed
  qed
qed

lemma keeps_on_screen: "(\<And>m s. p (m\<lparr>screen := s\<rparr>) = p m) \<Longrightarrow> keeps p (on_screen f)"
  by (simp add: keeps_def on_screen_def split: prod.splits)

lemma keeps_draw_lines:
  "(\<And>m s. p (m\<lparr>screen := s\<rparr>) = p m) \<Longrightarrow> keeps p (draw_lines txt y x height width)"
  unfolding draw_lines_def
  by (rule keeps_for_each) (auto simp: keeps_on_screen keeps_skip split: prod.splits)

lemma keeps_panel_body:
  assumes "\<And>m s. p (m\<lparr>screen := s\<rparr>) = p m"
  shows "keeps p (seq (on_screen f1) (seq (on_screen f2) (seq (on_screen f3)
           (case dd of None \<Rightarrow> skip
            | Some txt \<Rightarrow> if txt = [] then skip else draw_lines txt y x height width))))"
  using assms
  by (intro keeps_seq keeps_on_screen) (auto simp: keeps_skip keeps_draw_lines split: option.splits)

lemma keeps_draw_panel:
  assumes scr: "\<And>m s. p (m\<lparr>screen := s\<rparr>) = p m"
    and idx: "\<And>m i. p (m\<lparr>spinner_idx := i\<rparr>) = p m"
  shows "keeps p (draw_panel title d y x height width)"
  unfolding keeps_def
proof
  fix m
  note kb = keeps_panel_body [OF scr, unfolded keeps_def, rule_format]
  show "p (snd (draw_panel title d y x height width m)) = p m"
    by (simp add: draw_panel_def get_spinner_def Let_def kb idx)
qed

lemma keeps_draw_borders:
  assumes scr: "\<And>m s. p (m\<lparr>screen := s\<rparr>) = p m"
  shows "keeps p draw_borders"
proof -
  have "keeps p (seq (for_each xs (\<lambda>x. on_screen (addch a x ACS_HLINE)))
          (seq (for_each ys (\<lambda>y. on_screen (addch y b ACS_VLINE)))
               (on_screen (addch a b ACS_PLUS))))" for xs ys a b
    by (intro keeps_seq keeps_for_each keeps_on_screen scr)
  then show ?thesis
    by (simp add: keeps_def draw_borders_def Let_def getmaxyx_def)
qed

lemma keeps_draw_panel_of:
  assumes scr: "\<And>m s. p (m\<lparr>screen := s\<rparr>) = p m"
    and idx: "\<And>m i. p (m\<lparr>spinner_idx := i\<rparr>) = p m"
  shows "keeps p (\<lambda>m. draw_panel title (g m) y x height width m)"
  using keeps_draw_panel [OF scr idx] by (simp add: keeps_def)

lemma keeps_draw_screen:
  assumes scr: "\<And>m s. p (m\<lparr>screen := s\<rparr>) = p m"
    and idx: "\<And>m i. p (m\<lparr>spinner_idx := i\<rparr>) = p m"
  shows "p (snd (draw_screen now m)) = p m"
proof -
  note a = keeps_draw_borders [OF scr]
  note b = keeps_on_screen [of p, OF scr]
  note c = keeps_draw_panel_of [of p, OF scr idx]
  have "keeps p (seq draw_borders
        (seq (on_screen f1)
        (seq (\<lambda>m. draw_panel t1 (bandwidth_data m) y1 x1 h1 w1 m)
        (seq (\<lambda>m. draw_panel t2 (latency_data m) y2 x2 h2 w2 m)
        (seq (\<lambda>m. draw_panel t3 (stability_data m) y3 x3 h3 w3 m)
        (seq (\<lambda>m. draw_panel t4 (routing_data m) y4 x4 h4 w4 m)
        (seq (on_screen f2) (on_screen f3))))))))"
    for f1 f2 f3 t1 t2 t3 t4 y1 y2 y3 y4 x1 x2 x3 x4 h1 h2 h3 h4 w1 w2 w3 w4
    by (rule keeps_seq, rule a, rule keeps_seq, rule b, rule keeps_seq, rule c,
        rule keeps_seq, rule c, rule keeps_seq, rule c, rule keeps_seq, rule c,
        rule keeps_seq, rule b, rule b)
  then show ?thesis
    by (simp add: keeps_def draw_screen_def Let_def getmaxyx_def scr)
qed

section \<open>Claims on the collectors\<close>

text \<open>
  C6. After a pass of a collector in which the probe raises, the status of the collector's
  record is \<^verbatim>\<open>Error: \<close> followed by the message of the exception, and the data of the
  record is what it was before the pass. The program has two collectors, bandwidth and
  latency; the statement covers both.
\<close>

theorem failed_probe_keeps_data:
  "bandwidth_data (last (update_bandwidth_pass (Raised e) m)) =
     \<lparr>status = ''Error: '' @ e, data = data (bandwidth_data m)\<rparr> \<and>
   latency_data (last (update_latency_pass (Raised e) m)) =
     \<lparr>status = ''Error: '' @ e, data = data (latency_data m)\<rparr>"
  by (simp add: update_bandwidth_pass_def update_latency_pass_def Let_def)

text \<open>
  C1 (as amended). The status and the data of a record are written by separate
  assignments, the data first. A pass over a completed probe takes the record through
  three values: the old data under \<^verbatim>\<open>Updating...\<close>, the new data under
  \<^verbatim>\<open>Updating...\<close>, and the new data under \<^verbatim>\<open>OK\<close>. A reader between the last two
  assignments sees the new data with the status of before; the status \<^verbatim>\<open>OK\<close> is
  never written over data other than the output of the probe.
\<close>

theorem record_written_in_two_steps:
  "map bandwidth_data (update_bandwidth_pass (Completed out) m) =
     [\<lparr>status = ''Updating...'', data = data (bandwidth_data m)\<rparr>,
      \<lparr>status = ''Updating...'', data = Some out\<rparr>,
      \<lparr>status = ''OK'', data = Some out\<rparr>] \<and>
   map latency_data (update_latency_pass (Completed out) m) =
     [\<lparr>status = ''Updating...'', data = data (latency_data m)\<rparr>,
      \<lparr>status = ''Updating...'', data = Some out\<rparr>,
      \<lparr>status = ''OK'', data = Some out\<rparr>]"
  by (simp add: update_bandwidth_pass_def update_latency_pass_def Let_def)

text \<open>
  C1 as stated fails: from a record holding \<^verbatim>\<open>old\<close>, a pass whose probe prints
  \<^verbatim>\<open>new\<close> goes through a record that pairs the new data with the status written
  before the probe ran.
\<close>

theorem record_update_not_atomic:
  "bandwidth_data (update_bandwidth_pass (Completed ''new'')
       ((init_monitor 24 80)\<lparr>bandwidth_data := \<lparr>status = ''OK'', data = Some ''old''\<rparr>\<rparr>) ! 1)
    = \<lparr>status = ''Updating...'', data = Some ''new''\<rparr>"
  by (simp add: update_bandwidth_pass_def Let_def init_monitor_def)

section \<open>Claims on the renderer\<close>

text \<open>
  C7. A call of \<^verbatim>\<open>draw_panel\<close> moves the spinner index on by one modulo ten when the
  status of the record it is given is \<^verbatim>\<open>Updating...\<close>, and leaves it alone for any
  other status, also when a drawing call raises. The index is below ten: it starts at
  zero and this very statement keeps it there.
\<close>

theorem draw_panel_spinner:
  "spinner_idx m < 10 \<Longrightarrow>
   spinner_idx (snd (draw_panel title d y x height width m)) =
     (if status d = ''Updating...'' then (spinner_idx m + 1) mod 10 else spinner_idx m)"
proof -
  assume lt: "spinner_idx m < 10"
  have len: "length spinner = 10" by (simp add: spinner_def)
  note kb = keeps_panel_body [of spinner_idx, unfolded keeps_def, rule_format]
  show ?thesis
    using lt by (simp add: draw_panel_def get_spinner_def Let_def kb len)
qed

theorem draw_panel_spinner_witness:
  "spinner_idx ((init_monitor 24 80)\<lparr>spinner_idx := 9\<rparr>) < 10 \<and>
   spinner_idx (snd (draw_panel ''Latency'' \<lparr>status = ''Updating...'', data = None\<rparr> 2 41 11 39
      ((init_monitor 24 80)\<lparr>spinner_idx := 9\<rparr>))) = 0 \<and>
   spinner_idx (snd (draw_panel ''Latency'' \<lparr>status = ''OK'', data = None\<rparr> 2 41 11 39
      ((init_monitor 24 80)\<lparr>spinner_idx := 9\<rparr>))) = 9"
  using draw_panel_spinner [of "(init_monitor 24 80)\<lparr>spinner_idx := 9\<rparr>" "''Latency''"
      "\<lparr>status = ''Updating...'', data = None\<rparr>" 2 41 11 39]
    draw_panel_spinner [of "(init_monitor 24 80)\<lparr>spinner_idx := 9\<rparr>" "''Latency''"
      "\<lparr>status = ''OK'', data = None\<rparr>" 2 41 11 39]
  by (simp add: init_monitor_def)

text \<open>
  C10. A record whose data is the empty string is drawn as a record with no data: the
  test \<^verbatim>\<open>if data["data"]\<close> fails for both, so only the header is drawn.
\<close>

theorem empty_data_drawn_as_none:
  "draw_panel title (d\<lparr>data := Some ''''\<rparr>) y x height width m =
   draw_panel title (d\<lparr>data := None\<rparr>) y x height width m"
proof -
  have s: "status (d\<lparr>data := Some ''''\<rparr>) = status (d\<lparr>data := None\<rparr>)" by simp
  have b: "(case data (d\<lparr>data := Some ''''\<rparr>) of None \<Rightarrow> skip
            | Some txt \<Rightarrow> if txt = [] then skip else draw_lines txt y x height width)
         = (case data (d\<lparr>data := None\<rparr>) of None \<Rightarrow> skip
            | Some txt \<Rightarrow> if txt = [] then skip else draw_lines txt y x height width)"
    by simp
  show ?thesis
    unfolding draw_panel_def s b ..
qed

section \<open>Who writes what\<close>

text \<open>
  C9. Every assignment of a pass of the bandwidth collector leaves the records of the
  other four metrics as they were, and likewise for the latency collector; and the
  renderer (\<^verbatim>\<open>draw_panel\<close>, \<^verbatim>\<open>draw_borders\<close>, \<^verbatim>\<open>draw_screen\<close>) leaves all five
  records as they were, whether it returns or raises.
\<close>

theorem writers_and_readers:
  "(\<forall>m' \<in> set (update_bandwidth_pass r m).
      latency_data m' = latency_data m \<and> stability_data m' = stability_data m \<and>
      routing_data m' = routing_data m \<and> protocol_data m' = protocol_data m) \<and>
   (\<forall>m' \<in> set (update_latency_pass r m).
      bandwidth_data m' = bandwidth_data m \<and> stability_data m' = stability_data m \<and>
      routing_data m' = routing_data m \<and> protocol_data m' = protocol_data m) \<and>
   metric_records (snd (draw_panel title d y x height width m)) = metric_records m \<and>
   metric_records (snd (draw_borders m)) = metric_records m \<and>
   metric_records (snd (draw_screen now m)) = metric_records m"
proof -
  have a: "\<forall>m' \<in> set (update_bandwidth_pass r m).
      latency_data m' = latency_data m \<and> stability_data m' = stability_data m \<and>
      routing_data m' = routing_data m \<and> protocol_data m' = protocol_data m"
    by (cases r) (simp_all add: update_bandwidth_pass_def Let_def)
  have b: "\<forall>m' \<in> set (update_latency_pass r m).
      bandwidth_data m' = bandwidth_data m \<and> stability_data m' = stability_data m \<and>
      routing_data m' = routing_data m \<and> protocol_data m' = protocol_data m"
    by (cases r) (simp_all add: update_latency_pass_def Let_def)
  have c: "metric_records (snd (draw_panel title d y x height width m)) = metric_records m"
    using keeps_draw_panel [of metric_records title d y x height width]
    by (simp add: keeps_def metric_records_def)
  have d: "metric_records (snd (draw_borders m)) = metric_records m"
    using keeps_draw_borders [of metric_records]
    by (simp add: keeps_def metric_records_def)
  have e: "metric_records (snd (draw_screen now m)) = metric_records m"
    by (rule keeps_draw_screen) (simp_all add: metric_records_def)
  show ?thesis using a b c d e by blast
qed

theorem writers_and_readers_witness:
  "latency_data (last (update_bandwidth_pass (Completed ''Download: 50 Mbps'')
      (init_monitor 24 80))) = initial_record \<and>
   bandwidth_data (last (update_latency_pass (Completed ''Download: 50 Mbps'')
      (init_monitor 24 80))) = initial_record \<and>
   metric_records (snd (draw_screen ''2026-11-03 10:00:00'' (init_monitor 24 80))) =
     (initial_record, initial_record, initial_record, initial_record, initial_record)"
proof -
  let ?m = "init_monitor 24 80"
  note w = writers_and_readers [where r = "Completed ''Download: 50 Mbps''" and m = ?m
      and title = "''Bandwidth''" and d = initial_record and y = 2 and x = 1
      and height = 11 and width = 39 and now = "''2026-11-03 10:00:00''"]
  have nb: "update_bandwidth_pass (Completed ''Download: 50 Mbps'') ?m \<noteq> []"
    by (simp add: update_bandwidth_pass_def Let_def)
  have nl: "update_latency_pass (Completed ''Download: 50 Mbps'') ?m \<noteq> []"
    by (simp add: update_latency_pass_def Let_def)
  have r: "metric_records ?m =
      (initial_record, initial_record, initial_record, initial_record, initial_record)"
    by (simp add: metric_records_def init_monitor_def)
  have l: "latency_data ?m = initial_record" "bandwidth_data ?m = initial_record"
    by (simp_all add: init_monitor_def)
  note w1 = w [THEN conjunct1, rule_format, OF last_in_set [OF nb]]
  note w2 = w [THEN conjunct2, THEN conjunct1, rule_format, OF last_in_set [OF nl]]
  note w5 = w [THEN conjunct2, THEN conjunct2, THEN conjunct2, THEN conjunct2]
  show ?thesis using w1 w2 w5 r l by simp
qed

section \<open>The layout\<close>

text \<open>\<^verbatim>\<open>draw_screen\<close> draws the four panels in the four rectangles defined above.\<close>

lemma draw_screen_rects:
  "draw_screen now m0 =
     (let m = m0\<lparr>screen := clear (screen m0)\<rparr>;
          h = maxy (screen m0); w = maxx (screen m0)
      in seq draw_borders
        (seq (on_screen (addstr_at 0 ((w - 27) div 2)
                (text_glyphs ''Network Performance Monitor'') GREEN_BOLD))
        (seq (\<lambda>m. draw_panel_in ''Bandwidth'' (bandwidth_data m) (bandwidth_rect h w) m)
        (seq (\<lambda>m. draw_panel_in ''Latency'' (latency_data m) (latency_rect h w) m)
        (seq (\<lambda>m. draw_panel_in ''Stability'' (stability_data m) (stability_rect h w) m)
        (seq (\<lambda>m. draw_panel_in ''Routing'' (routing_data m) (routing_rect h w) m)
        (seq (on_screen (addstr_at (h - 1) 1 (text_glyphs (''Last update: '' @ now)) A_NORMAL))
             (on_screen refresh))))))) m)"
  by (simp add: draw_screen_def Let_def getmaxyx_def clear_def draw_panel_in_def
      bandwidth_rect_def latency_rect_def stability_rect_def routing_rect_def)

text \<open>
  C5. On a terminal of at least four rows and four columns, the four rectangles that
  \<^verbatim>\<open>draw_screen\<close> hands to \<^verbatim>\<open>draw_panel\<close> (row, column, height, width) have no cell
  in common, two by two, and each lies inside the terminal.
\<close>

theorem panels_disjoint_in_window:
  assumes "4 \<le> H" "4 \<le> W"
  shows "rect_cells (bandwidth_rect H W) \<inter> rect_cells (latency_rect H W) = {} \<and>
         rect_cells (bandwidth_rect H W) \<inter> rect_cells (stability_rect H W) = {} \<and>
         rect_cells (bandwidth_rect H W) \<inter> rect_cells (routing_rect H W) = {} \<and>
         rect_cells (latency_rect H W) \<inter> rect_cells (stability_rect H W) = {} \<and>
         rect_cells (latency_rect H W) \<inter> rect_cells (routing_rect H W) = {} \<and>
         rect_cells (stability_rect H W) \<inter> rect_cells (routing_rect H W) = {} \<and>
         rect_cells (bandwidth_rect H W) \<subseteq> window_cells H W \<and>
         rect_cells (latency_rect H W) \<subseteq> window_cells H W \<and>
         rect_cells (stability_rect H W) \<subseteq> window_cells H W \<and>
         rect_cells (routing_rect H W) \<subseteq> window_cells H W"
proof -
  have h: "2 * (H div 2) \<le> H" "2 \<le> H div 2" using assms by simp_all
  have w: "2 * (W div 2) \<le> W" "2 \<le> W div 2" using assms by simp_all
  have d1: "rect_cells (bandwidth_rect H W) \<inter> rect_cells (latency_rect H W) = {}"
    by (auto simp: rect_cells_def bandwidth_rect_def latency_rect_def)
  have d2: "rect_cells (bandwidth_rect H W) \<inter> rect_cells (stability_rect H W) = {}"
    by (auto simp: rect_cells_def bandwidth_rect_def stability_rect_def)
  have d3: "rect_cells (bandwidth_rect H W) \<inter> rect_cells (routing_rect H W) = {}"
    by (auto simp: rect_cells_def bandwidth_rect_def routing_rect_def)
  have d4: "rect_cells (latency_rect H W) \<inter> rect_cells (stability_rect H W) = {}"
    by (auto simp: rect_cells_def latency_rect_def stability_rect_def)
  have d5: "rect_cells (latency_rect H W) \<inter> rect_cells (routing_rect H W) = {}"
    by (auto simp: rect_cells_def latency_rect_def routing_rect_def)
  have d6: "rect_cells (stability_rect H W) \<inter> rect_cells (routing_rect H W) = {}"
    by (auto simp: rect_cells_def stability_rect_def routing_rect_def)
  have i1: "rect_cells (bandwidth_rect H W) \<subseteq> window_cells H W"
    using h w by (auto simp: rect_cells_def window_cells_def bandwidth_rect_def)
  have i2: "rect_cells (latency_rect H W) \<subseteq> window_cells H W"
    using h w by (auto simp: rect_cells_def window_cells_def latency_rect_def)
  have i3: "rect_cells (stability_rect H W) \<subseteq> window_cells H W"
    using h w by (auto simp: rect_cells_def window_cells_def stability_rect_def)
  have i4: "rect_cells (routing_rect H W) \<subseteq> window_cells H W"
    using h w by (auto simp: rect_cells_def window_cells_def routing_rect_def)
  show ?thesis using d1 d2 d3 d4 d5 d6 i1 i2 i3 i4 by blast
qed

theorem panels_disjoint_in_window_witness:
  "(4::int) \<le> 24 \<and> (4::int) \<le> 80 \<and>
   rect_cells (bandwidth_rect 24 80) \<inter> rect_cells (stability_rect 24 80) = {} \<and>
   rect_cells (routing_rect 24 80) \<subseteq> window_cells 24 80 \<and>
   bandwidth_rect 24 80 = (2, 1, 11, 39) \<and> routing_rect 24 80 = (13, 41, 11, 39)"
  using panels_disjoint_in_window [of 24 80]
  by (simp add: bandwidth_rect_def routing_rect_def)

section \<open>Shutdown\<close>

lemma bandwidth_exit:
  "\<forall>u. snd (probe u) \<le> d \<Longrightarrow> t < t_stop \<Longrightarrow>
   t_stop \<le> fst (update_bandwidth t_stop probe t m) \<and>
   fst (update_bandwidth t_stop probe t m) < t_stop + d + 300"
proof (induction t_stop probe t m rule: update_bandwidth.induct)
  case (1 t_stop probe t m)
  let ?t' = "t + snd (probe t) + 300"
  let ?m' = "last (update_bandwidth_pass (fst (probe t)) m)"
  have step: "update_bandwidth t_stop probe t m = update_bandwidth t_stop probe ?t' ?m'"
    using "1.prems"(2) by (subst update_bandwidth.simps) simp
  have dle: "snd (probe t) \<le> d" using "1.prems"(1) by simp
  show ?case
  proof (cases "?t' < t_stop")
    case True
    then show ?thesis using "1.IH" [OF "1.prems"(2) "1.prems"(1) True] step by simp
  next
    case False
    then have "update_bandwidth t_stop probe ?t' ?m' = (?t', ?m')"
      by (subst update_bandwidth.simps) simp
    then show ?thesis using step False dle "1.prems"(2) by simp
  qed
qed

lemma latency_exit:
  "\<forall>u. snd (probe u) \<le> d \<Longrightarrow> t < t_stop \<Longrightarrow>
   t_stop \<le> fst (update_latency t_stop probe t m) \<and>
   fst (update_latency t_stop probe t m) < t_stop + d + 5"
proof (induction t_stop probe t m rule: update_latency.induct)
  case (1 t_stop probe t m)
  let ?t' = "t + snd (probe t) + 5"
  let ?m' = "last (update_latency_pass (fst (probe t)) m)"
  have step: "update_latency t_stop probe t m = update_latency t_stop probe ?t' ?m'"
    using "1.prems"(2) by (subst update_latency.simps) simp
  have dle: "snd (probe t) \<le> d" using "1.prems"(1) by simp
  show ?case
  proof (cases "?t' < t_stop")
    case True
    then show ?thesis using "1.IH" [OF "1.prems"(2) "1.prems"(1) True] step by simp
  next
    case False
    then have "update_latency t_stop probe ?t' ?m' = (?t', ?m')"
      by (subst update_latency.simps) simp
    then show ?thesis using step False dle "1.prems"(2) by simp
  qed
qed

lemma exit_at_once:
  "fst (update_bandwidth 0 probe 0 m) = 0" "fst (update_latency 0 probe 0 m) = 0"
proof -
  show "fst (update_bandwidth 0 probe 0 m) = 0"
    by (subst update_bandwidth.simps) simp
  show "fst (update_latency 0 probe 0 m) = 0"
    by (subst update_latency.simps) simp
qed

text \<open>
  C3 (as amended). The sleep of a collector is not interrupted. After the flag is cleared
  at \<open>t_stop\<close>, a collector returns at its next test of the flag, which comes after the
  probe under way and the whole sleep: when every probe takes at most \<open>d\<close> seconds, the
  bandwidth thread returns before \<open>t_stop + d + 300\<close>, the latency thread before
  \<open>t_stop + d + 5\<close>, and the joins of \<^verbatim>\<open>run\<close> return before \<open>t_stop + d + 300\<close>, never
  before \<open>t_stop\<close>.
\<close>

theorem shutdown_waits_for_sleep:
  assumes "\<forall>u. snd (speedtest u) \<le> d" "\<forall>u. snd (ping u) \<le> d"
  shows "t_stop \<le> fst (update_bandwidth t_stop speedtest 0 m) \<and>
         fst (update_bandwidth t_stop speedtest 0 m) < t_stop + d + 300 \<and>
         t_stop \<le> fst (update_latency t_stop ping 0 m) \<and>
         fst (update_latency t_stop ping 0 m) < t_stop + d + 5 \<and>
         t_stop \<le> run_interrupted t_stop speedtest ping m \<and>
         run_interrupted t_stop speedtest ping m < t_stop + d + 300"
proof (cases "0 < t_stop")
  case True
  note b = bandwidth_exit [OF assms(1) True, of m]
  note l = latency_exit [OF assms(2) True, of m]
  show ?thesis using b l by (auto simp add: run_interrupted_def Let_def max_def)
next
  case False
  then have z: "t_stop = 0" by simp
  show ?thesis
    by (simp add: z exit_at_once run_interrupted_def Let_def)
qed

theorem shutdown_waits_for_sleep_witness:
  "(\<forall>u. snd ((\<lambda>t. (Completed ''Download: 50 Mbps'', 1::nat)) (u::nat)) \<le> 1) \<and>
   (\<forall>u. snd ((\<lambda>t. (Raised ''not found'', 0::nat)) (u::nat)) \<le> 1) \<and>
   run_interrupted 10 (\<lambda>t. (Completed ''Download: 50 Mbps'', 1)) (\<lambda>t. (Raised ''not found'', 0))
      (init_monitor 24 80) < 311"
proof -
  have h1: "\<forall>u::nat. snd ((\<lambda>t. (Completed ''Download: 50 Mbps'', 1::nat)) u) \<le> 1" by simp
  have h2: "\<forall>u::nat. snd ((\<lambda>t. (Raised ''not found'', 0::nat)) u) \<le> 1" by simp
  note w = shutdown_waits_for_sleep [OF h1 h2, of 10 "init_monitor 24 80"]
  have "run_interrupted 10 (\<lambda>t. (Completed ''Download: 50 Mbps'', 1)) (\<lambda>t. (Raised ''not found'', 0))
      (init_monitor 24 80) < 10 + 1 + 300"
    using w by blast
  then show ?thesis using h1 h2 by simp
qed

text \<open>
  C3 as stated fails: with probes that take no time and the flag cleared after one second,
  the bandwidth thread returns at second 300 and the latency thread at second 5, each at
  the end of its own sleep, and \<^verbatim>\<open>run\<close> returns at second 300.
\<close>

theorem shutdown_waits_out_the_interval:
  "fst (update_bandwidth 1 (\<lambda>t. (Completed ''Download: 50 Mbps'', 0)) 0 (init_monitor 24 80)) = 300 \<and>
   fst (update_latency 1 (\<lambda>t. (Completed ''64 bytes'', 0)) 0 (init_monitor 24 80)) = 5 \<and>
   run_interrupted 1 (\<lambda>t. (Completed ''Download: 50 Mbps'', 0)) (\<lambda>t. (Completed ''64 bytes'', 0))
     (init_monitor 24 80) = 300"
proof -
  let ?p = "\<lambda>t::nat. (Completed ''Download: 50 Mbps'', 0::nat)"
  let ?q = "\<lambda>t::nat. (Completed ''64 bytes'', 0::nat)"
  have b1: "update_bandwidth 1 ?p 0 m =
     update_bandwidth 1 ?p 300 (last (update_bandwidth_pass (Completed ''Download: 50 Mbps'') m))" for m
    by (subst update_bandwidth.simps) simp
  have b2: "update_bandwidth 1 ?p 300 m' = (300, m')" for m'
    by (subst update_bandwidth.simps) simp
  have l1: "update_latency 1 ?q 0 m =
     update_latency 1 ?q 5 (last (update_latency_pass (Completed ''64 bytes'') m))" for m
    by (subst update_latency.simps) simp
  have l2: "update_latency 1 ?q 5 m' = (5, m')" for m'
    by (subst update_latency.simps) simp
  have B: "fst (update_bandwidth 1 ?p 0 m) = 300" for m
    by (simp only: b1 b2 fst_conv)
  have L: "fst (update_latency 1 ?q 0 m) = 5" for m
    by (simp only: l1 l2 fst_conv)
  show ?thesis
    unfolding run_interrupted_def Let_def B L by simp
qed

section \<open>What a drawing call writes\<close>























section \<open>The colour of the status tag\<close>




section \<open>Drawing without an error\<close>

















section \<open>The body of a panel\<close>

text \<open>
  C4, at one input. On a terminal of 10 rows and 80 columns the bandwidth panel is the
  rectangle (2, 1, 4, 39), so two lines of data are due, on rows 3 and 4, both inside
  the panel. With the three lines that the speed test prints, \<^verbatim>\<open>draw_panel\<close> returns
  normally and draws the first line only: the test \<^verbatim>\<open>y + i + 1 < height\<close> compares a
  row of the screen with the height of the panel, and fails for the second line
  (2 + 1 + 1 is not below 4).
\<close>

theorem second_line_not_drawn:
  "bandwidth_rect 10 80 = (2, 1, 4, 39) \<and>
   slice_to (4 - 2) (split_nl (''Ping: 20.1 ms'' @ [CHR 0x0A] @ ''Download: 50.00 Mbit/s'' @
       [CHR 0x0A] @ ''Upload: 10.00 Mbit/s'' @ [CHR 0x0A]))
     = [''Ping: 20.1 ms'', ''Download: 50.00 Mbit/s''] \<and>
   fst (draw_panel ''Bandwidth''
     \<lparr>status = ''OK'', data = Some (''Ping: 20.1 ms'' @ [CHR 0x0A] @ ''Download: 50.00 Mbit/s'' @
       [CHR 0x0A] @ ''Upload: 10.00 Mbit/s'' @ [CHR 0x0A])\<rparr> 2 1 4 39 (init_monitor 10 80)) = None \<and>
   filter (\<lambda>c. fst c \<noteq> 2) (cells (screen (snd (draw_panel ''Bandwidth''
     \<lparr>status = ''OK'', data = Some (''Ping: 20.1 ms'' @ [CHR 0x0A] @ ''Download: 50.00 Mbit/s'' @
       [CHR 0x0A] @ ''Upload: 10.00 Mbit/s'' @ [CHR 0x0A])\<rparr> 2 1 4 39 (init_monitor 10 80)))))
     = row_cells 3 1 (text_glyphs ''Ping: 20.1 ms'') A_NORMAL"
  by code_simp

end
